theory Spec2Isabelle
  imports Main
begin

section \<open>Values, actions and transition functions\<close>

text \<open>
  The values a state can take at run time. \<open>JUndefined\<close> is JavaScript's
  \<^verbatim>\<open>undefined\<close>: it is the only value for which a default parameter
  (\<^verbatim>\<open>state: S = initialState\<close>) is substituted. \<open>JNum\<close> carries the
  integer-valued numbers, \<open>JObj\<close> any caller-defined state object.
\<close>

datatype 'o jsval =
    JUndefined
  | JNull
  | JBool bool
  | JNum int
  | JStr string
  | JObj 'o

text \<open>
  A transition function is caller code: it may return any value or throw any value.
  A call that throws is \<open>Inl\<close>, a call that returns is \<open>Inr\<close>.
\<close>

datatype 'o error = Thrown "'o jsval"

type_synonym 'o result = "'o error + 'o jsval"

text \<open>
  Modelled from the spec: the interfaces \<^verbatim>\<open>Action\<close> and \<^verbatim>\<open>ActionCreator\<close> are
  imported from \<^verbatim>\<open>./models\<close>, which is not part of the sources at hand. An action
  is "a tagged record with a unique string-like identifier field (type) plus arbitrary
  payload fields"; an action descriptor is "a value carrying the string identifier".
  Both are the extensible record below: the \<open>more\<close> part holds the payload fields of an
  action, or whatever else a descriptor carries.
\<close>

record Action =
  type :: string

type_synonym 'c ActionCreator = "'c Action_scheme"

text \<open>\<^verbatim>\<open>OnReducer\<close>: called with (state, action).\<close>

type_synonym ('o, 'a) OnReducer = "'o jsval \<Rightarrow> 'a Action_scheme \<Rightarrow> 'o result"

text \<open>\<^verbatim>\<open>ReducerTypes\<close>, the return type of \<^verbatim>\<open>on\<close>.\<close>

record ('o, 'a) ReducerTypes =
  reducer :: "('o, 'a) OnReducer"
  types :: "string list"

section \<open>The association builder\<close>

text \<open>
  \<^verbatim>\<open>on(...args)\<close>. The rest parameter has the tuple type
  \<^verbatim>\<open>[...creators: Creators, reducer: OnReducer]\<close>, so the argument array is given
  here as its two parts. \<^verbatim>\<open>args.pop()\<close> takes the reducer off the end of that
  fresh array, which then holds the creators only; \<^verbatim>\<open>map\<close> reads the
  \<^verbatim>\<open>type\<close> of each of them in order.
\<close>

definition on :: "'c ActionCreator list \<Rightarrow> ('o, 'a) OnReducer \<Rightarrow> ('o, 'a) ReducerTypes" where
  "on creators reducer_arg =
     (let reducer = reducer_arg;
          types = map (\<lambda>creator. type creator) creators
      in \<lparr>reducer = reducer, types = types\<rparr>)"

section \<open>The dispatch-table builder\<close>

text \<open>
  The function literal \<^verbatim>\<open>(state, action) => on.reducer(existingReducer(state, action), action)\<close>:
  the inner call is evaluated first, and what it throws is thrown by the whole call.
\<close>

definition newReducer ::
  "('o, 'a) OnReducer \<Rightarrow> ('o, 'a) ReducerTypes \<Rightarrow> ('o, 'a) OnReducer" where
  "newReducer existingReducer on' =
     (\<lambda>state action.
        case existingReducer state action of
          Inl e \<Rightarrow> Inl e
        | Inr state' \<Rightarrow> reducer on' state' action)"

text \<open>
  The \<^verbatim>\<open>Map\<close> object is a partial function from identifiers to reducers:
  \<^verbatim>\<open>map.get(type)\<close> is \<open>m type'\<close>, and \<^verbatim>\<open>map.set(type, r)\<close> returns the updated
  map. A stored reducer is a function, hence truthy, so \<^verbatim>\<open>if (existingReducer)\<close>
  tests whether the key is present.

  \<open>for_types\<close> is the inner loop \<^verbatim>\<open>for (const type of on.types)\<close>, \<open>for_ons\<close> the
  outer loop \<^verbatim>\<open>for (const on of ons)\<close>.
\<close>

fun for_types ::
  "('o, 'a) ReducerTypes \<Rightarrow> string list \<Rightarrow> (string \<rightharpoonup> ('o, 'a) OnReducer)
     \<Rightarrow> (string \<rightharpoonup> ('o, 'a) OnReducer)" where
  "for_types on' [] m = m"
| "for_types on' (type' # rest) m =
     for_types on' rest
       (case m type' of
          Some existingReducer \<Rightarrow> m(type' \<mapsto> newReducer existingReducer on')
        | None \<Rightarrow> m(type' \<mapsto> reducer on'))"

fun for_ons ::
  "('o, 'a) ReducerTypes list \<Rightarrow> (string \<rightharpoonup> ('o, 'a) OnReducer)
     \<Rightarrow> (string \<rightharpoonup> ('o, 'a) OnReducer)" where
  "for_ons [] m = m"
| "for_ons (on' # rest) m = for_ons rest (for_types on' (types on') m)"

text \<open>
  \<^verbatim>\<open>ActionReducer\<close>, the function that \<^verbatim>\<open>createReducer\<close> returns, is a closure: the
  record holds the two variables it captures.
\<close>

record ('o, 'a) ActionReducer =
  initialState :: "'o jsval"
  map_tbl :: "string \<rightharpoonup> ('o, 'a) OnReducer"

definition createReducer ::
  "'o jsval \<Rightarrow> ('o, 'a) ReducerTypes list \<Rightarrow> ('o, 'a) ActionReducer" where
  "createReducer initialState' ons =
     (let m = for_ons ons Map.empty
      in \<lparr>initialState = initialState', map_tbl = m\<rparr>)"

text \<open>
  One call \<^verbatim>\<open>(state = initialState, action)\<close> of the returned function. The
  default value is taken exactly when the argument is \<^verbatim>\<open>undefined\<close>. The call
  gives its completion together with the captured variables as it leaves them: the
  body reads \<^verbatim>\<open>map\<close> with \<^verbatim>\<open>get\<close> and assigns to neither variable.
\<close>

definition call ::
  "('o, 'a) ActionReducer \<Rightarrow> 'o jsval \<Rightarrow> 'a Action_scheme
     \<Rightarrow> 'o result \<times> ('o, 'a) ActionReducer" where
  "call r state_arg action =
     (let state = (if state_arg = JUndefined then initialState r else state_arg);
          reducer' = map_tbl r (type action)
      in ((case reducer' of
             Some f \<Rightarrow> f state action
           | None \<Rightarrow> Inr state),
          r))"

text \<open>What one call returns or throws.\<close>

definition dispatch ::
  "('o, 'a) ActionReducer \<Rightarrow> 'o jsval \<Rightarrow> 'a Action_scheme \<Rightarrow> 'o result" where
  "dispatch r state_arg action = fst (call r state_arg action)"

section \<open>Pairings as objects\<close>















section \<open>The dispatch table as the specification describes it\<close>

text \<open>
  The specification's invariant: "every identifier maps to a function combining, in
  declaration order, all transition functions registered for that identifier, each
  receiving the previous one's output as its input state". \<open>registered\<close> lists the
  transition functions registered for an identifier, one entry for each time a pairing
  lists it; \<open>pipeline\<close> runs a list of them left to right.
\<close>

definition registered ::
  "('o, 'a) ReducerTypes list \<Rightarrow> string \<Rightarrow> ('o, 'a) OnReducer list" where
  "registered ons t =
     concat (map (\<lambda>on'. replicate (count_list (types on') t) (reducer on')) ons)"

fun pipeline :: "('o, 'a) OnReducer list \<Rightarrow> ('o, 'a) OnReducer" where
  "pipeline [] state action = Inr state"
| "pipeline (f # fs) state action =
     (case f state action of
        Inl e \<Rightarrow> Inl e
      | Inr state' \<Rightarrow> pipeline fs state' action)"

text \<open>
  The entry of the table under construction after more transition functions have been
  registered for its identifier.
\<close>

fun extend ::
  "('o, 'a) OnReducer option \<Rightarrow> ('o, 'a) OnReducer list \<Rightarrow> ('o, 'a) OnReducer option" where
  "extend cur [] = cur"
| "extend None (f # fs) = extend (Some f) fs"
| "extend (Some g) (f # fs) =
     extend (Some (\<lambda>state action.
        case g state action of Inl e \<Rightarrow> Inl e | Inr state' \<Rightarrow> f state' action)) fs"

section \<open>The table built by the two loops\<close>

lemma extend_append: "extend cur (fs @ gs) = extend (extend cur fs) gs"
  by (induction cur fs rule: extend.induct) simp_all

lemma for_types_lookup:
  "for_types on' ts m t = extend (m t) (replicate (count_list ts t) (reducer on'))"
proof (induction ts arbitrary: m)
  case Nil
  show ?case by simp
next
  case (Cons u us)
  show ?case
  proof (cases "u = t")
    case True
    then show ?thesis
      by (cases "m t") (simp_all add: Cons.IH newReducer_def)
  next
    case False
    then show ?thesis
      by (cases "m u") (simp_all add: Cons.IH)
  qed
qed

lemma for_ons_lookup: "for_ons ons m t = extend (m t) (registered ons t)"
proof (induction ons arbitrary: m)
  case Nil
  show ?case by (simp add: registered_def)
next
  case (Cons p ps)
  have "for_ons (p # ps) m t = extend (for_types p (types p) m t) (registered ps t)"
    by (simp add: Cons.IH)
  also have "\<dots> = extend (m t) (registered (p # ps) t)"
    by (simp add: for_types_lookup registered_def extend_append)
  finally show ?case .
qed

lemma extend_Some_run:
  "(case extend (Some g) fs of None \<Rightarrow> Inr state | Some h \<Rightarrow> h state action)
     = pipeline (g # fs) state action"
proof (induction fs arbitrary: g state)
  case Nil
  show ?case by (cases "g state action") simp_all
next
  case (Cons f fs)
  show ?case
    by (cases "g state action") (simp_all add: Cons.IH)
qed

lemma extend_None_run:
  "(case extend None fs of None \<Rightarrow> Inr state | Some h \<Rightarrow> h state action)
     = pipeline fs state action"
  by (cases fs) (simp_all add: extend_Some_run)

lemma map_tbl_createReducer:
  "map_tbl (createReducer initialState' ons) t = extend None (registered ons t)"
  by (simp add: createReducer_def for_ons_lookup)

lemma dispatch_pipeline:
  "dispatch (createReducer initialState' ons) state_arg action
     = pipeline (registered ons (type action))
         (if state_arg = JUndefined then initialState' else state_arg) action"
proof -
  have "dispatch (createReducer initialState' ons) state_arg action
      = (case extend None (registered ons (type action)) of
           None \<Rightarrow> Inr (if state_arg = JUndefined then initialState' else state_arg)
         | Some h \<Rightarrow> h (if state_arg = JUndefined then initialState' else state_arg) action)"
    by (simp add: dispatch_def call_def map_tbl_createReducer)
      (simp add: createReducer_def)
  then show ?thesis by (simp only: extend_None_run)
qed

lemma result_case_id: "(case x of Inl e \<Rightarrow> Inl e | Inr v \<Rightarrow> Inr v) = x"
  by (cases x) simp_all

lemma pipeline_pair:
  "pipeline [f, g] state action
     = (case f state action of Inl e \<Rightarrow> Inl e | Inr state' \<Rightarrow> g state' action)"
  by (simp add: result_case_id split: sum.splits)

lemma dispatch_lookup:
  "dispatch r state_arg action
     = (case map_tbl r (type action) of
          None \<Rightarrow> Inr (if state_arg = JUndefined then initialState r else state_arg)
        | Some f \<Rightarrow> f (if state_arg = JUndefined then initialState r else state_arg) action)"
  by (simp add: dispatch_def call_def Let_def)

lemma initialState_createReducer: "initialState (createReducer S0 ons) = S0"
  by (simp add: createReducer_def)

lemma registered_none:
  "t \<notin> set (concat (map types ons)) \<Longrightarrow> registered ons t = []"
  by (induction ons) (simp_all add: registered_def)

lemma registered_single:
  "registered [p] t = replicate (count_list (types p) t) (reducer p)"
  by (simp add: registered_def)

lemma registered_pair:
  "registered [p, q] t
     = replicate (count_list (types p) t) (reducer p)
       @ replicate (count_list (types q) t) (reducer q)"
  by (simp add: registered_def)

lemma registered_empty_types:
  "types p = [] \<Longrightarrow> registered (xs @ p # ys) t = registered (xs @ ys) t"
  by (simp add: registered_def)

section \<open>Handlers sharing an identifier\<close>

text \<open>
  With f adding one and g doubling: when the first pairing lists ''X'' twice, the state
  5 becomes 14, not g(f(5)) = 12; and with initial state 10 and each pairing listing
  ''X'' once, the state \<^verbatim>\<open>undefined\<close> becomes 22, not g(f(undefined)).
\<close>

theorem createReducer_shared_identifier_counterexample:
  "let f = (\<lambda>(s::unit jsval) (a::Action).
              case s of JNum n \<Rightarrow> Inr (JNum (n + 1)) | _ \<Rightarrow> Inr s);
       g = (\<lambda>(s::unit jsval) (a::Action).
              case s of JNum n \<Rightarrow> Inr (JNum (2 * n)) | _ \<Rightarrow> Inr s)
   in dispatch
        (createReducer JNull
           [on [\<lparr>type = ''X''\<rparr>, \<lparr>type = ''X''\<rparr>] f, on [\<lparr>type = ''X''\<rparr>] g])
        (JNum 5) \<lparr>type = ''X''\<rparr>
        \<noteq> (case f (JNum 5) \<lparr>type = ''X''\<rparr> of
             Inl e \<Rightarrow> Inl e
           | Inr s' \<Rightarrow> g s' \<lparr>type = ''X''\<rparr>)
      \<and> dispatch
        (createReducer (JNum 10)
           [on [\<lparr>type = ''X''\<rparr>] f, on [\<lparr>type = ''X''\<rparr>] g])
        JUndefined \<lparr>type = ''X''\<rparr>
        \<noteq> (case f JUndefined \<lparr>type = ''X''\<rparr> of
             Inl e \<Rightarrow> Inl e
           | Inr s' \<Rightarrow> g s' \<lparr>type = ''X''\<rparr>)"
  by (simp add: Let_def dispatch_pipeline registered_def on_def)

text \<open>
  C1, as amended. For a function built by \<open>createReducer\<close> from two pairings that each
  list the identifier X exactly once, with transition functions f and g in that order,
  a call with a state s and an action of type X gives g(f(s', action), action), where
  s' is s when s is not \<^verbatim>\<open>undefined\<close> and the initial state when it is: f runs first,
  g runs on what f returned, both with the same action, and what f throws is thrown.
\<close>

theorem createReducer_shared_identifier:
  assumes "count_list (map type creators1) X = 1"
    and "count_list (map type creators2) X = 1"
    and "type action = X"
  shows "dispatch (createReducer S0 [on creators1 f, on creators2 g]) s action
           = (case f (if s = JUndefined then S0 else s) action of
                Inl e \<Rightarrow> Inl e
              | Inr s' \<Rightarrow> g s' action)"
proof -
  have "registered [on creators1 f, on creators2 g] X = [f, g]"
    using assms(1,2) by (simp add: registered_pair on_def)
  then have "dispatch (createReducer S0 [on creators1 f, on creators2 g]) s action
      = pipeline [f, g] (if s = JUndefined then S0 else s) action"
    using assms(3) by (simp add: dispatch_pipeline)
  also have "\<dots> = (case f (if s = JUndefined then S0 else s) action of
                Inl e \<Rightarrow> Inl e
              | Inr s' \<Rightarrow> g s' action)"
    by (rule pipeline_pair)
  finally show ?thesis .
qed

text \<open>
  With f adding one and g doubling, the second pairing listing ''Y'' as well, and
  initial state 10: the state 5 becomes 12, the state \<^verbatim>\<open>undefined\<close> becomes 22.
\<close>

theorem createReducer_shared_identifier_witness:
  "count_list (map type [\<lparr>type = ''X''\<rparr>]) ''X'' = 1
   \<and> count_list (map type [\<lparr>type = ''Y''\<rparr>, \<lparr>type = ''X''\<rparr>]) ''X'' = 1
   \<and> type \<lparr>type = ''X''\<rparr> = ''X''
   \<and> dispatch
        (createReducer (JNum 10)
          [on [\<lparr>type = ''X''\<rparr>]
             (\<lambda>s a. case s of JNum n \<Rightarrow> Inr (JNum (n + 1)) | _ \<Rightarrow> Inr s),
           on [\<lparr>type = ''Y''\<rparr>, \<lparr>type = ''X''\<rparr>]
             (\<lambda>s a. case s of JNum n \<Rightarrow> Inr (JNum (2 * n)) | _ \<Rightarrow> Inr s)])
        (JNum 5 :: unit jsval) \<lparr>type = ''X''\<rparr>
      = Inr (JNum 12)
   \<and> dispatch
        (createReducer (JNum 10)
          [on [\<lparr>type = ''X''\<rparr>]
             (\<lambda>s a. case s of JNum n \<Rightarrow> Inr (JNum (n + 1)) | _ \<Rightarrow> Inr s),
           on [\<lparr>type = ''Y''\<rparr>, \<lparr>type = ''X''\<rparr>]
             (\<lambda>s a. case s of JNum n \<Rightarrow> Inr (JNum (2 * n)) | _ \<Rightarrow> Inr s)])
        (JUndefined :: unit jsval) \<lparr>type = ''X''\<rparr>
      = Inr (JNum 22)"
proof -
  have h1: "count_list (map type [\<lparr>type = ''X''\<rparr>]) ''X'' = 1" by simp
  have h2: "count_list (map type [\<lparr>type = ''Y''\<rparr>, \<lparr>type = ''X''\<rparr>]) ''X'' = 1" by simp
  have h3: "type \<lparr>type = ''X''\<rparr> = ''X''" by simp
  show ?thesis
    using
      createReducer_shared_identifier [OF h1 h2 h3, of "JNum 10"
        "\<lambda>s a. case s of JNum n \<Rightarrow> Inr (JNum (n + 1)) | _ \<Rightarrow> Inr s"
        "\<lambda>s a. case s of JNum n \<Rightarrow> Inr (JNum (2 * n)) | _ \<Rightarrow> Inr s"
        "JNum 5 :: unit jsval"]
      createReducer_shared_identifier [OF h1 h2 h3, of "JNum 10"
        "\<lambda>s a. case s of JNum n \<Rightarrow> Inr (JNum (n + 1)) | _ \<Rightarrow> Inr s"
        "\<lambda>s a. case s of JNum n \<Rightarrow> Inr (JNum (2 * n)) | _ \<Rightarrow> Inr s"
        "JUndefined :: unit jsval"]
    by simp
qed

section \<open>Unknown identifiers\<close>

text \<open>
  C2. For every function built by \<open>createReducer\<close>, every defined state s and every
  action whose type no pairing lists, the call returns s itself and does not throw,
  whatever the registered transition functions would do.
\<close>

theorem unknown_identifier_returns_state:
  assumes "type action \<notin> set (concat (map types ons))"
    and "s \<noteq> JUndefined"
  shows "dispatch (createReducer S0 ons) s action = Inr s"
  using assms by (simp add: dispatch_pipeline registered_none)

theorem unknown_identifier_returns_state_witness:
  "type \<lparr>type = ''OTHER''\<rparr>
     \<notin> set (concat (map types
          [on [\<lparr>type = ''A''\<rparr>, \<lparr>type = ''B''\<rparr>]
             (\<lambda>(s::nat jsval) (a::Action). Inl (Thrown (JStr ''boom''))),
           on [\<lparr>type = ''C''\<rparr>] (\<lambda>s a. Inr JNull)]))
   \<and> (JObj (7::nat)) \<noteq> JUndefined
   \<and> dispatch
        (createReducer (JObj 0)
          [on [\<lparr>type = ''A''\<rparr>, \<lparr>type = ''B''\<rparr>]
             (\<lambda>(s::nat jsval) (a::Action). Inl (Thrown (JStr ''boom''))),
           on [\<lparr>type = ''C''\<rparr>] (\<lambda>s a. Inr JNull)])
        (JObj (7::nat)) \<lparr>type = ''OTHER''\<rparr>
      = Inr (JObj 7)"
proof -
  have h1: "type \<lparr>type = ''OTHER''\<rparr>
     \<notin> set (concat (map types
          [on [\<lparr>type = ''A''\<rparr>, \<lparr>type = ''B''\<rparr>]
             (\<lambda>(s::nat jsval) (a::Action). Inl (Thrown (JStr ''boom''))),
           on [\<lparr>type = ''C''\<rparr>] (\<lambda>s a. Inr JNull)]))"
    by (simp add: on_def)
  have h2: "(JObj (7::nat)) \<noteq> JUndefined" by simp
  have "dispatch
        (createReducer (JObj 0)
          [on [\<lparr>type = ''A''\<rparr>, \<lparr>type = ''B''\<rparr>]
             (\<lambda>(s::nat jsval) (a::Action). Inl (Thrown (JStr ''boom''))),
           on [\<lparr>type = ''C''\<rparr>] (\<lambda>s a. Inr JNull)])
        (JObj (7::nat)) \<lparr>type = ''OTHER''\<rparr>
      = Inr (JObj 7)"
    by (rule unknown_identifier_returns_state [OF h1 h2])
  with h1 h2 show ?thesis by blast
qed

section \<open>The initial state\<close>

text \<open>
  C3. When the state argument is \<^verbatim>\<open>undefined\<close>, the initial state S0 is taken
  before the table is looked up. With no pairings, or with an action type that no
  pairing lists, the call returns S0; with an action type that is in the table, the
  composed transition function found there is applied to (S0, action) and its result
  is the result of the call. In every case the call is the pipeline of the transition
  functions registered for the action's type, started on S0.
\<close>

theorem undefined_state_takes_initialState:
  "dispatch (createReducer S0 []) JUndefined action = Inr S0
   \<and> (type action \<notin> set (concat (map types ons))
        \<longrightarrow> dispatch (createReducer S0 ons) JUndefined action = Inr S0)
   \<and> dispatch (createReducer S0 ons) JUndefined action
        = (case map_tbl (createReducer S0 ons) (type action) of
             None \<Rightarrow> Inr S0
           | Some composed \<Rightarrow> composed S0 action)
   \<and> dispatch (createReducer S0 ons) JUndefined action
        = pipeline (registered ons (type action)) S0 action"
proof (intro conjI impI)
  show "dispatch (createReducer S0 []) JUndefined action = Inr S0"
    by (simp add: dispatch_pipeline registered_def)
  show "dispatch (createReducer S0 ons) JUndefined action = Inr S0"
    if "type action \<notin> set (concat (map types ons))"
    using that by (simp add: dispatch_pipeline registered_none)
  show "dispatch (createReducer S0 ons) JUndefined action
        = (case map_tbl (createReducer S0 ons) (type action) of
             None \<Rightarrow> Inr S0
           | Some composed \<Rightarrow> composed S0 action)"
    by (simp add: dispatch_lookup initialState_createReducer cong: option.case_cong)
  show "dispatch (createReducer S0 ons) JUndefined action
        = pipeline (registered ons (type action)) S0 action"
    by (simp add: dispatch_pipeline)
qed

text \<open>
  One pairing for ''INC'' that adds one, initial state 10: an unknown action gives 10,
  the action ''INC'' gives 11.
\<close>

theorem undefined_state_takes_initialState_witness:
  "type \<lparr>type = ''OTHER''\<rparr>
     \<notin> set (concat (map types
          [on [\<lparr>type = ''INC''\<rparr>]
             (\<lambda>(s::unit jsval) (a::Action).
                case s of JNum n \<Rightarrow> Inr (JNum (n + 1)) | _ \<Rightarrow> Inr s)]))
   \<and> dispatch
        (createReducer (JNum 10)
          [on [\<lparr>type = ''INC''\<rparr>]
             (\<lambda>(s::unit jsval) (a::Action).
                case s of JNum n \<Rightarrow> Inr (JNum (n + 1)) | _ \<Rightarrow> Inr s)])
        JUndefined \<lparr>type = ''OTHER''\<rparr>
      = Inr (JNum 10)
   \<and> dispatch
        (createReducer (JNum 10)
          [on [\<lparr>type = ''INC''\<rparr>]
             (\<lambda>(s::unit jsval) (a::Action).
                case s of JNum n \<Rightarrow> Inr (JNum (n + 1)) | _ \<Rightarrow> Inr s)])
        JUndefined \<lparr>type = ''INC''\<rparr>
      = Inr (JNum 11)"
proof -
  have h: "type \<lparr>type = ''OTHER''\<rparr>
     \<notin> set (concat (map types
          [on [\<lparr>type = ''INC''\<rparr>]
             (\<lambda>(s::unit jsval) (a::Action).
                case s of JNum n \<Rightarrow> Inr (JNum (n + 1)) | _ \<Rightarrow> Inr s)]))"
    by (simp add: on_def)
  have other: "dispatch
        (createReducer (JNum 10)
          [on [\<lparr>type = ''INC''\<rparr>]
             (\<lambda>(s::unit jsval) (a::Action).
                case s of JNum n \<Rightarrow> Inr (JNum (n + 1)) | _ \<Rightarrow> Inr s)])
        JUndefined \<lparr>type = ''OTHER''\<rparr>
      = Inr (JNum 10)"
    using undefined_state_takes_initialState
      [of "JNum 10" "\<lparr>type = ''OTHER''\<rparr>"
        "[on [\<lparr>type = ''INC''\<rparr>]
           (\<lambda>(s::unit jsval) (a::Action).
              case s of JNum n \<Rightarrow> Inr (JNum (n + 1)) | _ \<Rightarrow> Inr s)]"] h
    by blast
  have "dispatch
        (createReducer (JNum 10)
          [on [\<lparr>type = ''INC''\<rparr>]
             (\<lambda>(s::unit jsval) (a::Action).
                case s of JNum n \<Rightarrow> Inr (JNum (n + 1)) | _ \<Rightarrow> Inr s)])
        JUndefined \<lparr>type = ''INC''\<rparr>
      = pipeline (registered
          [on [\<lparr>type = ''INC''\<rparr>]
             (\<lambda>(s::unit jsval) (a::Action).
                case s of JNum n \<Rightarrow> Inr (JNum (n + 1)) | _ \<Rightarrow> Inr s)]
          (type \<lparr>type = ''INC''\<rparr>)) (JNum 10) \<lparr>type = ''INC''\<rparr>"
    using undefined_state_takes_initialState
      [of "JNum 10" "\<lparr>type = ''INC''\<rparr>"
        "[on [\<lparr>type = ''INC''\<rparr>]
           (\<lambda>(s::unit jsval) (a::Action).
              case s of JNum n \<Rightarrow> Inr (JNum (n + 1)) | _ \<Rightarrow> Inr s)]"]
    by blast
  then have inc: "dispatch
        (createReducer (JNum 10)
          [on [\<lparr>type = ''INC''\<rparr>]
             (\<lambda>(s::unit jsval) (a::Action).
                case s of JNum n \<Rightarrow> Inr (JNum (n + 1)) | _ \<Rightarrow> Inr s)])
        JUndefined \<lparr>type = ''INC''\<rparr>
      = Inr (JNum 11)"
    by (simp add: registered_single on_def)
  from h other inc show ?thesis by blast
qed

section \<open>The association builder: results\<close>

text \<open>
  C4. A pairing built by \<open>on\<close> from descriptors with identifiers a, b (in that order)
  and a transition function f has the identifier list [a, b] and the reducer f. The
  same holds for any number of descriptors: the identifiers are those of the
  descriptors, in the order given. \<open>on\<close> is a function of its arguments alone: the
  only thing the source mutates is the argument array of the call itself.
\<close>

theorem on_types_and_reducer:
  "types (on [\<lparr>type = a, \<dots> = ma\<rparr>, \<lparr>type = b, \<dots> = mb\<rparr>] f) = [a, b]
   \<and> reducer (on [\<lparr>type = a, \<dots> = ma\<rparr>, \<lparr>type = b, \<dots> = mb\<rparr>] f) = f
   \<and> types (on creators f) = map type creators
   \<and> reducer (on creators f) = f"
  by (simp add: on_def)

section \<open>No pairings\<close>

text \<open>
  With initial state 0 and no pairings, a call with \<^verbatim>\<open>undefined\<close> as state does
  not return \<^verbatim>\<open>undefined\<close>: it returns 0.
\<close>

theorem no_pairings_undefined_counterexample:
  "dispatch (createReducer (JNum 0 :: unit jsval) []) JUndefined \<lparr>type = ''ANY''\<rparr>
     \<noteq> Inr JUndefined"
  by (simp add: dispatch_pipeline registered_def)

text \<open>
  C5, as amended. For a function built by \<open>createReducer\<close> with initial state S0 and
  no pairings, a call with any state S1 other than \<^verbatim>\<open>undefined\<close> returns S1,
  whatever the action; a call with \<^verbatim>\<open>undefined\<close> returns S0.
\<close>

theorem no_pairings_returns_state:
  "dispatch (createReducer S0 []) S1 action = Inr (if S1 = JUndefined then S0 else S1)"
  by (simp add: dispatch_pipeline registered_def)

section \<open>Repeated calls\<close>















section \<open>A counter\<close>

text \<open>
  C7. For a function built with one pairing from the identifier ''INC'' to a transition
  function that behaves as \<^verbatim>\<open>(s, _) => s + 1\<close> on numbers, a call with state 5 and
  an action of type ''INC'' returns 6, and a call with state 5 and an action of type
  ''OTHER'' returns 5.
\<close>

theorem inc_example:
  assumes "\<forall>n action. inc (JNum n) action = Inr (JNum (n + 1))"
  shows "dispatch (createReducer S0 [on [\<lparr>type = ''INC'', \<dots> = c\<rparr>] inc])
           (JNum 5) \<lparr>type = ''INC'', \<dots> = p\<rparr> = Inr (JNum 6)
         \<and> dispatch (createReducer S0 [on [\<lparr>type = ''INC'', \<dots> = c\<rparr>] inc])
           (JNum 5) \<lparr>type = ''OTHER'', \<dots> = q\<rparr> = Inr (JNum 5)"
  using assms by (simp add: dispatch_pipeline registered_single on_def)

theorem inc_example_witness:
  "(\<forall>n action.
      (\<lambda>s (a::Action). case s of JNum k \<Rightarrow> Inr (JNum (k + 1)) | _ \<Rightarrow> Inr s)
        (JNum n :: unit jsval) action = Inr (JNum (n + 1)))
   \<and> dispatch (createReducer (JNum 0) [on [\<lparr>type = ''INC''\<rparr>]
          (\<lambda>s (a::Action). case s of JNum k \<Rightarrow> Inr (JNum (k + 1)) | _ \<Rightarrow> Inr s)])
        (JNum 5 :: unit jsval) \<lparr>type = ''INC''\<rparr> = Inr (JNum 6)
   \<and> dispatch (createReducer (JNum 0) [on [\<lparr>type = ''INC''\<rparr>]
          (\<lambda>s (a::Action). case s of JNum k \<Rightarrow> Inr (JNum (k + 1)) | _ \<Rightarrow> Inr s)])
        (JNum 5 :: unit jsval) \<lparr>type = ''OTHER''\<rparr> = Inr (JNum 5)"
proof -
  have h: "\<forall>n action.
      (\<lambda>s (a::Action). case s of JNum k \<Rightarrow> Inr (JNum (k + 1)) | _ \<Rightarrow> Inr s)
        (JNum n :: unit jsval) action = Inr (JNum (n + 1))"
    by simp
  show ?thesis
    using inc_example [OF h, of "JNum 0" "()" "()" "()"] h by simp
qed

section \<open>Pairings without identifiers, and with repeated ones\<close>

text \<open>
  C8. \<open>on\<close> with no action descriptors, only a transition function f, gives a pairing
  with the empty identifier list. A function built by \<open>createReducer\<close> from a list of
  pairings that contains it anywhere has the same table and gives, for every state
  argument and action, the same completion as the one built from the list without it:
  f is never called (it may throw on every input and nothing changes).
\<close>

theorem on_without_creators_unreachable:
  "types (on [] f) = []
   \<and> reducer (on [] f) = f
   \<and> map_tbl (createReducer S0 (before @ on [] f # after))
       = map_tbl (createReducer S0 (before @ after))
   \<and> dispatch (createReducer S0 (before @ on [] f # after)) state_arg action
       = dispatch (createReducer S0 (before @ after)) state_arg action"
  by (simp add: dispatch_pipeline registered_empty_types on_def fun_eq_iff
      map_tbl_createReducer)

text \<open>
  C9. A pairing whose identifier list holds an identifier several times has its
  transition function composed with itself: a call runs, for each pairing in order,
  the pairing's transition function once for each occurrence of the action's type in
  the pairing's identifier list. For one pairing built from the same descriptor given
  twice, a matching call returns f(f(state, action), action).
\<close>

theorem handler_runs_once_per_occurrence:
  "dispatch (createReducer S0 ons) state_arg action
     = pipeline
         (concat (map (\<lambda>p. replicate (count_list (types p) (type action)) (reducer p)) ons))
         (if state_arg = JUndefined then S0 else state_arg) action
   \<and> dispatch (createReducer S0 [on [\<lparr>type = X, \<dots> = c\<rparr>, \<lparr>type = X, \<dots> = c\<rparr>] f])
         state_arg \<lparr>type = X, \<dots> = p\<rparr>
     = (case f (if state_arg = JUndefined then S0 else state_arg) \<lparr>type = X, \<dots> = p\<rparr> of
          Inl e \<Rightarrow> Inl e
        | Inr state' \<Rightarrow> f state' \<lparr>type = X, \<dots> = p\<rparr>)"
  by (simp add: dispatch_pipeline registered_def on_def result_case_id split: sum.splits)

section \<open>Falsy states\<close>

text \<open>
  C10. The initial state is substituted only when the state argument is exactly
  \<^verbatim>\<open>undefined\<close>. Any other state argument, \<^verbatim>\<open>null\<close>, 0, the empty string and
  \<^verbatim>\<open>false\<close> among them, is passed as it is to the composed transition function
  found for the action's type, and is returned as it is when none is found.
\<close>

theorem only_undefined_is_replaced:
  assumes "state_arg \<noteq> JUndefined"
  shows "dispatch (createReducer S0 ons) state_arg action
           = (case map_tbl (createReducer S0 ons) (type action) of
                None \<Rightarrow> Inr state_arg
              | Some composed \<Rightarrow> composed state_arg action)
         \<and> dispatch (createReducer S0 ons) state_arg action
           = pipeline (registered ons (type action)) state_arg action"
proof
  show "dispatch (createReducer S0 ons) state_arg action
           = (case map_tbl (createReducer S0 ons) (type action) of
                None \<Rightarrow> Inr state_arg
              | Some composed \<Rightarrow> composed state_arg action)"
    using assms by (simp add: dispatch_lookup)
  show "dispatch (createReducer S0 ons) state_arg action
           = pipeline (registered ons (type action)) state_arg action"
    using assms by (simp add: dispatch_pipeline)
qed

text \<open>
  Initial state 7 and one pairing for ''SEEN'' whose transition function tells whether
  the state it receives is 7: called with \<^verbatim>\<open>null\<close> and with 0 it answers false, and
  an unknown action returns the empty string unchanged.
\<close>

theorem only_undefined_is_replaced_witness:
  "(JNull :: unit jsval) \<noteq> JUndefined
   \<and> (JNum 0 :: unit jsval) \<noteq> JUndefined
   \<and> (JStr [] :: unit jsval) \<noteq> JUndefined
   \<and> dispatch (createReducer (JNum 7 :: unit jsval) [on [\<lparr>type = ''SEEN''\<rparr>] (\<lambda>s (a::Action). Inr (JBool (s = JNum 7)))])
        JNull \<lparr>type = ''SEEN''\<rparr> = Inr (JBool False)
   \<and> dispatch (createReducer (JNum 7 :: unit jsval) [on [\<lparr>type = ''SEEN''\<rparr>] (\<lambda>s (a::Action). Inr (JBool (s = JNum 7)))])
        (JNum 0) \<lparr>type = ''SEEN''\<rparr> = Inr (JBool False)
   \<and> dispatch (createReducer (JNum 7 :: unit jsval) [on [\<lparr>type = ''SEEN''\<rparr>] (\<lambda>s (a::Action). Inr (JBool (s = JNum 7)))])
        (JStr []) \<lparr>type = ''OTHER''\<rparr> = Inr (JStr [] :: unit jsval)"
proof -
  have h1: "(JNull :: unit jsval) \<noteq> JUndefined" by simp
  have h2: "(JNum 0 :: unit jsval) \<noteq> JUndefined" by simp
  have h3: "(JStr [] :: unit jsval) \<noteq> JUndefined" by simp
  have r1: "dispatch (createReducer (JNum 7 :: unit jsval) [on [\<lparr>type = ''SEEN''\<rparr>] (\<lambda>s (a::Action). Inr (JBool (s = JNum 7)))])
        JNull \<lparr>type = ''SEEN''\<rparr> = Inr (JBool False)"
    by (simp add: registered_single on_def
        only_undefined_is_replaced [OF h1, THEN conjunct2])
  have r2: "dispatch (createReducer (JNum 7 :: unit jsval) [on [\<lparr>type = ''SEEN''\<rparr>] (\<lambda>s (a::Action). Inr (JBool (s = JNum 7)))])
        (JNum 0) \<lparr>type = ''SEEN''\<rparr> = Inr (JBool False)"
    by (simp add: registered_single on_def
        only_undefined_is_replaced [OF h2, THEN conjunct2])
  have r3: "dispatch (createReducer (JNum 7 :: unit jsval) [on [\<lparr>type = ''SEEN''\<rparr>] (\<lambda>s (a::Action). Inr (JBool (s = JNum 7)))])
        (JStr []) \<lparr>type = ''OTHER''\<rparr> = Inr (JStr [] :: unit jsval)"
    by (simp add: registered_single on_def
        only_undefined_is_replaced [OF h3, THEN conjunct2])
  from h1 h2 h3 r1 r2 r3 show ?thesis by blast
qed

end
